theory Spec2Isabelle
  imports Main "HOL-Library.Char_ord" "HOL-Library.List_Lexorder"
begin

section \<open>Python strings\<close>

text \<open>
  A Python \<open>str\<close> is modelled as a \<open>string\<close> whose characters are the code points
  0..255 (the Latin-1 range); the classification tables below are those of Python 3 on
  that range.
\<close>

definition py_isspace :: "char \<Rightarrow> bool" where
  "py_isspace c =
     (let n = (of_char c :: nat)
      in (9 \<le> n \<and> n \<le> 13) \<or> (28 \<le> n \<and> n \<le> 32) \<or> n = 133 \<or> n = 160)"

definition py_isalnum :: "char \<Rightarrow> bool" where
  "py_isalnum c =
     (let n = (of_char c :: nat)
      in (48 \<le> n \<and> n \<le> 57) \<or> (65 \<le> n \<and> n \<le> 90) \<or> (97 \<le> n \<and> n \<le> 122)
         \<or> n = 170 \<or> n = 178 \<or> n = 179 \<or> n = 181 \<or> n = 185 \<or> n = 186
         \<or> (188 \<le> n \<and> n \<le> 190) \<or> (192 \<le> n \<and> n \<le> 214)
         \<or> (216 \<le> n \<and> n \<le> 246) \<or> (248 \<le> n \<and> n \<le> 255))"

definition py_isupper :: "char \<Rightarrow> bool" where
  "py_isupper c =
     (let n = (of_char c :: nat)
      in (65 \<le> n \<and> n \<le> 90) \<or> (192 \<le> n \<and> n \<le> 214) \<or> (216 \<le> n \<and> n \<le> 222))"

definition py_lower_char :: "char \<Rightarrow> char" where
  "py_lower_char c = (if py_isupper c then char_of ((of_char c :: nat) + 32) else c)"

definition py_lower :: "string \<Rightarrow> string" where
  "py_lower s = map py_lower_char s"

definition py_strip :: "string \<Rightarrow> string" where
  "py_strip s = rev (dropWhile py_isspace (rev (dropWhile py_isspace s)))"

text \<open>\<open>str.split()\<close> without arguments: the maximal runs of non-whitespace characters.\<close>

fun split_aux :: "string \<Rightarrow> string \<Rightarrow> string list" where
  "split_aux w [] = (if w = [] then [] else [w])"
| "split_aux w (c # cs) =
     (if py_isspace c then (if w = [] then split_aux [] cs else w # split_aux [] cs)
      else split_aux (w @ [c]) cs)"

definition py_split :: "string \<Rightarrow> string list" where
  "py_split s = split_aux [] s"

fun py_join :: "string \<Rightarrow> string list \<Rightarrow> string" where
  "py_join sep [] = []"
| "py_join sep [x] = x"
| "py_join sep (x # y # ys) = x @ sep @ py_join sep (y # ys)"

definition py_startswith :: "string \<Rightarrow> string \<Rightarrow> bool" where
  "py_startswith s p = (take (length p) s = p)"

definition py_endswith :: "string \<Rightarrow> string \<Rightarrow> bool" where
  "py_endswith s x = (length x \<le> length s \<and> drop (length s - length x) s = x)"

text \<open>\<open>sub in s\<close> on strings: \<open>sub\<close> occurs in \<open>s\<close> as a contiguous block.\<close>

fun py_in :: "string \<Rightarrow> string \<Rightarrow> bool" where
  "py_in sub [] = (sub = [])"
| "py_in sub (c # cs) = (take (length sub) (c # cs) = sub \<or> py_in sub cs)"

text \<open>\<open>str(n)\<close> for an integer \<open>n\<close>.\<close>

definition digit_char :: "nat \<Rightarrow> char" where
  "digit_char d = char_of (48 + d)"

fun str_nat :: "nat \<Rightarrow> string" where
  "str_nat n = (if n < 10 then [digit_char n] else str_nat (n div 10) @ [digit_char (n mod 10)])"

declare str_nat.simps [simp del]

definition str_int :: "int \<Rightarrow> string" where
  "str_int i = (if i < 0 then CHR ''-'' # str_nat (nat (- i)) else str_nat (nat i))"

section \<open>Company-name normalization\<close>

text \<open>\<open>normalize_company\<close> of \<open>CPC_Duplicate_Helper/utils.py\<close>.\<close>

definition suffixes :: "string list" where
  "suffixes =
     ['', inc.'', '' inc.'', '', inc'', '' inc'',
      '', llc'', '' llc'', '', l.l.c.'', '' l.l.c.'',
      '', ltd.'', '' ltd.'', '', ltd'', '' ltd'',
      '', limited'', '' limited'',
      '', corp.'', '' corp.'', '', corp'', '' corp'',
      '', corporation'', '' corporation'',
      '', co.'', '' co.'', '', co'', '' co'',
      '', company'', '' company'',
      '', gmbh'', '' gmbh'',
      '', s.a.'', '' s.a.'', '', sa'', '' sa'',
      '', plc'', '' plc'', '', p.l.c.'', '' p.l.c.'',
      '', llp'', '' llp'', '', l.l.p.'', '' l.l.p.'',
      '', lp'', '' lp'', '', l.p.'', '' l.p.'',
      '', ag'', '' ag'', '', a.g.'', '' a.g.'',
      '', nv'', '' nv'', '', n.v.'', '' n.v.'',
      '', bv'', '' bv'', '', b.v.'', '' b.v.'']"

definition prefixes :: "string list" where
  "prefixes = [''the '', ''a '']"

text \<open>The loop over the prefixes: each one that matches is removed, in list order.\<close>

fun remove_prefixes :: "string list \<Rightarrow> string \<Rightarrow> string" where
  "remove_prefixes [] normalized = normalized"
| "remove_prefixes (p # ps) normalized =
     remove_prefixes ps
       (if py_startswith normalized p then drop (length p) normalized else normalized)"

text \<open>The loop over the suffixes: the first one that matches is removed, then \<open>break\<close>.\<close>

fun remove_suffix :: "string list \<Rightarrow> string \<Rightarrow> string" where
  "remove_suffix [] normalized = normalized"
| "remove_suffix (x # xs) normalized =
     (if py_endswith normalized x
      then py_strip (take (length normalized - length x) normalized)
      else remove_suffix xs normalized)"

definition normalize_company :: "string \<Rightarrow> string" where
  "normalize_company name =
     (if name = [] then []
      else
        let normalized = py_lower (py_strip name);
            normalized = remove_prefixes prefixes normalized;
            normalized = remove_suffix suffixes normalized;
            normalized = filter (\<lambda>c. py_isalnum c \<or> py_isspace c) normalized
        in py_join '' '' (py_split normalized))"

text \<open>Shape of the words of a normalized name, used to state what normalization returns.\<close>

definition word_ok :: "string \<Rightarrow> bool" where
  "word_ok w = (w \<noteq> [] \<and> (\<forall>c\<in>set w. \<not> py_isspace c))"

definition clean_word :: "string \<Rightarrow> bool" where
  "clean_word w = (word_ok w \<and> (\<forall>c\<in>set w. py_isalnum c \<and> py_lower_char c = c))"


section \<open>Worksheet and the violation writer\<close>

text \<open>
  A worksheet cell holds nothing, a string or an integer; a worksheet maps (row, column)
  to the cell's value. \<open>py_falsy\<close> is Python's \<open>not value\<close> on these values.
\<close>

datatype cell_value = NoneV | StrV string | IntV int

type_synonym worksheet = "nat \<times> nat \<Rightarrow> cell_value"

definition py_falsy :: "cell_value \<Rightarrow> bool" where
  "py_falsy v = (v = NoneV \<or> v = StrV [] \<or> v = IntV 0)"

text \<open>\<open>str(value or "")\<close>.\<close>

definition str_or_empty :: "cell_value \<Rightarrow> string" where
  "str_or_empty v = (case v of NoneV \<Rightarrow> [] | StrV s \<Rightarrow> s | IntV i \<Rightarrow> (if i = 0 then [] else str_int i))"

text \<open>\<open>disqualify_lead\<close> of \<open>utils/file_utils.py\<close>; the worksheet is returned updated.\<close>

definition disqualify_lead ::
  "worksheet \<Rightarrow> nat \<Rightarrow> nat \<Rightarrow> nat \<Rightarrow> nat \<Rightarrow> string \<Rightarrow> string \<Rightarrow> worksheet" where
  "disqualify_lead ws row col_status col_reason col_comment reason comment =
     (let ws = (if py_falsy (ws (row, col_status))
                then ws((row, col_status) := StrV ''Disqualified'') else ws);
          ws = (if py_falsy (ws (row, col_reason))
                then ws((row, col_reason) := StrV reason) else ws);
          existing_comment = py_strip (str_or_empty (ws (row, col_comment)))
      in if \<not> py_in comment existing_comment
         then (if existing_comment \<noteq> []
               then ws((row, col_comment) := StrV (existing_comment @ '', '' @ comment))
               else ws((row, col_comment) := StrV comment))
         else ws)"



section \<open>Records, field mapping, root domains\<close>

text \<open>
  A record (one spreadsheet row) is a dictionary from column name to the cell's text; the
  loader stores every value as a stripped string. The field mapping is a dictionary from
  role to column name or to the sentinel "Not Available".
\<close>

type_synonym row = "string \<rightharpoonup> string"

type_synonym field_mapping = "string \<rightharpoonup> string"

datatype py_error = ValueError | IndexError

text \<open>\<open>d.get(k, "")\<close>.\<close>

definition get_or :: "(string \<rightharpoonup> string) \<Rightarrow> string \<Rightarrow> string" where
  "get_or d k = (case d k of None \<Rightarrow> [] | Some v \<Rightarrow> v)"

text \<open>\<open>mapping.get(role) != "Not Available"\<close>.\<close>

definition is_mapped :: "field_mapping \<Rightarrow> string \<Rightarrow> bool" where
  "is_mapped mapping role = (mapping role \<noteq> Some ''Not Available'')"

text \<open>\<open>row.get(mapping.get(role, ''), "")\<close>.\<close>

definition field :: "field_mapping \<Rightarrow> row \<Rightarrow> string \<Rightarrow> string" where
  "field mapping r role = get_or r (get_or mapping role)"

text \<open>
  \<open>extract_root_domain\<close> of \<open>utils/email_utils.py\<close>. The library call
  \<open>tldextract.extract(domain).domain\<close> is the parameter \<open>tld\<close>.
\<close>

definition extract_root_domain :: "(string \<Rightarrow> string) \<Rightarrow> string \<Rightarrow> string" where
  "extract_root_domain tld domain =
     (if domain = [] then []
      else if tld domain \<noteq> [] then tld domain
      else py_lower domain)"


section \<open>The CPC checker\<close>

text \<open>
  \<open>CPCChecker\<close> of \<open>CPC_Duplicate_Helper/cpc_checker.py\<close>. The counter tables are the
  dictionary with the four keys \<open>'company'\<close>, \<open>'tal'\<close>, \<open>'domain'\<close>, \<open>'root_domain'\<close>, each a
  \<open>defaultdict(int)\<close>.
\<close>

datatype dim = Company | Tal | Domain | Root_domain

type_synonym counts = "dim \<Rightarrow> string \<Rightarrow> nat"

definition no_counts :: counts where
  "no_counts = (\<lambda>_ _. 0)"

text \<open>\<open>counts[d][k] += 1\<close>.\<close>

definition inc :: "counts \<Rightarrow> dim \<Rightarrow> string \<Rightarrow> counts" where
  "inc c d k = c(d := (c d)(k := c d k + 1))"



text \<open>
  The four values extracted from a lead row (\<open>company_val\<close>, \<open>tal_val\<close>, \<open>domain_val\<close>,
  \<open>root_val\<close>), indexed by the counter they feed.
\<close>

definition lead_domain_val :: "field_mapping \<Rightarrow> row \<Rightarrow> string" where
  "lead_domain_val mapping lrow =
     (if is_mapped mapping ''lead_domain''
      then py_lower (py_strip (field mapping lrow ''lead_domain'')) else [])"

fun lead_val :: "(string \<Rightarrow> string) \<Rightarrow> field_mapping \<Rightarrow> row \<Rightarrow> dim \<Rightarrow> string" where
  "lead_val tld mapping lrow Company =
     (if is_mapped mapping ''lead_company''
      then normalize_company (field mapping lrow ''lead_company'') else [])"
| "lead_val tld mapping lrow Tal =
     (if is_mapped mapping ''lead_tal''
      then normalize_company (field mapping lrow ''lead_tal'') else [])"
| "lead_val tld mapping lrow Domain = lead_domain_val mapping lrow"
| "lead_val tld mapping lrow Root_domain =
     (let domain_val = lead_domain_val mapping lrow
      in if domain_val \<noteq> [] then extract_root_domain tld domain_val else [])"

text \<open>The four \<open>if x_val: lead_counts[..][x_val] += 1\<close> statements.\<close>

definition track_lead :: "counts \<Rightarrow> (dim \<Rightarrow> string) \<Rightarrow> counts" where
  "track_lead lead_counts v =
     (let lc = lead_counts;
          lc = (if v Company \<noteq> [] then inc lc Company (v Company) else lc);
          lc = (if v Tal \<noteq> [] then inc lc Tal (v Tal) else lc);
          lc = (if v Domain \<noteq> [] then inc lc Domain (v Domain) else lc);
          lc = (if v Root_domain \<noteq> [] then inc lc Root_domain (v Root_domain) else lc)
      in lc)"

text \<open>\<open>x_total\<close>: delivery count plus lead count of the row's value, 0 without a value.\<close>

definition total :: "counts \<Rightarrow> counts \<Rightarrow> (dim \<Rightarrow> string) \<Rightarrow> dim \<Rightarrow> nat" where
  "total delivery_counts lead_counts v d =
     (if v d \<noteq> [] then delivery_counts d (v d) + lead_counts d (v d) else 0)"

definition ratio :: "nat \<Rightarrow> int \<Rightarrow> string" where
  "ratio t cpc_limit = ''('' @ str_nat t @ ''/'' @ str_int cpc_limit @ '')''"

text \<open>The four messages of \<open>run_cpc_check\<close>.\<close>

definition company_msg :: "nat \<Rightarrow> int \<Rightarrow> string" where
  "company_msg t cpc_limit = ''CPC Exceeded by Company Name '' @ ratio t cpc_limit"

definition tal_msg :: "nat \<Rightarrow> int \<Rightarrow> string" where
  "tal_msg t cpc_limit = ''CPC Exceeded by TAL Company Name '' @ ratio t cpc_limit"

definition root_msg :: "string \<Rightarrow> nat \<Rightarrow> int \<Rightarrow> string" where
  "root_msg root_val t cpc_limit =
     ''CPC Exceeded by Root Domain '' @ [CHR 0x27] @ root_val @ [CHR 0x27] @ '' ''
       @ ratio t cpc_limit"

definition domain_msg :: "nat \<Rightarrow> int \<Rightarrow> string" where
  "domain_msg t cpc_limit = ''CPC Exceeded by Exact Domain '' @ ratio t cpc_limit"

text \<open>The list \<open>violations\<close> built for one lead row.\<close>

definition cpc_row_violations ::
  "int \<Rightarrow> counts \<Rightarrow> counts \<Rightarrow> (dim \<Rightarrow> string) \<Rightarrow> string list" where
  "cpc_row_violations cpc_limit delivery_counts lead_counts v =
     (let company_total = total delivery_counts lead_counts v Company;
          tal_total = total delivery_counts lead_counts v Tal;
          domain_total = total delivery_counts lead_counts v Domain;
          root_total = total delivery_counts lead_counts v Root_domain
      in (if v Company \<noteq> [] \<and> int company_total > cpc_limit
          then [company_msg company_total cpc_limit] else [])
       @ (if v Tal \<noteq> [] \<and> int tal_total > cpc_limit
          then [tal_msg tal_total cpc_limit] else [])
       @ (if v Root_domain \<noteq> [] \<and> int root_total > cpc_limit
          then [root_msg (v Root_domain) root_total cpc_limit]
          else if v Domain \<noteq> [] \<and> int domain_total > cpc_limit
          then [domain_msg domain_total cpc_limit]
          else []))"

record cpc_stats =
  cpc_violations :: nat
  companies_checked :: "string set"

record cpc_cols =
  cpc_company_col :: nat
  cpc_tal_col :: nat
  cpc_domain_col :: nat
  cpc_root_domain_col :: nat
  lead_status_col :: nat
  dq_reason_col :: nat
  qa_comment_col :: nat

record cpc_state =
  lead_counts :: counts
  stats :: cpc_stats
  lead_ws :: worksheet

text \<open>\<open>lead_ws.cell(idx, col, x_total if x_val else "")\<close>.\<close>

definition write_total ::
  "worksheet \<Rightarrow> nat \<Rightarrow> nat \<Rightarrow> string \<Rightarrow> nat \<Rightarrow> worksheet" where
  "write_total ws idx col val t = ws((idx, col) := (if val \<noteq> [] then IntV (int t) else StrV []))"



text \<open>\<open>headers.index(name)\<close>, which raises \<open>ValueError\<close> on a missing name.\<close>

fun index_of :: "string list \<Rightarrow> string \<Rightarrow> nat option" where
  "index_of [] name = None"
| "index_of (h # hs) name = (if h = name then Some 0 else map_option Suc (index_of hs name))"

text \<open>\<open>ensure_col_in_ws\<close> of \<open>CPC_Duplicate_Helper/utils.py\<close>: headers, worksheet, column.\<close>

definition ensure_col_in_ws ::
  "string list \<Rightarrow> worksheet \<Rightarrow> string \<Rightarrow> string list \<times> worksheet \<times> nat" where
  "ensure_col_in_ws ws_headers ws name =
     (case index_of ws_headers name of
        Some i \<Rightarrow> (ws_headers, ws, i + 1)
      | None \<Rightarrow>
          (let col_idx = length ws_headers + 1
           in (ws_headers @ [name], ws((1, col_idx) := StrV name), col_idx)))"


text \<open>
  The violation lists of the lead rows, in row order: the value of \<open>violations\<close> at the end
  of each iteration of the loop above, computed from the same counters.
\<close>

fun cpc_trace ::
  "(string \<Rightarrow> string) \<Rightarrow> field_mapping \<Rightarrow> int \<Rightarrow> counts \<Rightarrow> counts \<Rightarrow> row list \<Rightarrow>
   string list list" where
  "cpc_trace tld mapping cpc_limit dc lc [] = []"
| "cpc_trace tld mapping cpc_limit dc lc (lrow # rest) =
     (let v = lead_val tld mapping lrow; lc' = track_lead lc v
      in cpc_row_violations cpc_limit dc lc' v # cpc_trace tld mapping cpc_limit dc lc' rest)"







section \<open>The internal CPC checker\<close>

text \<open>
  \<open>InternalCPCChecker\<close> of \<open>CPC_Duplicate_Helper/internal_checkers.py\<close>: the same loop
  over the lead rows, with no delivery counts, its own messages and its own statistics.
\<close>

definition internal_company_msg :: "nat \<Rightarrow> int \<Rightarrow> string" where
  "internal_company_msg t cpc_limit = ''Internal CPC Exceeded by Company '' @ ratio t cpc_limit"

definition internal_tal_msg :: "nat \<Rightarrow> int \<Rightarrow> string" where
  "internal_tal_msg t cpc_limit = ''Internal CPC Exceeded by TAL Company '' @ ratio t cpc_limit"

definition internal_root_msg :: "string \<Rightarrow> nat \<Rightarrow> int \<Rightarrow> string" where
  "internal_root_msg root_val t cpc_limit =
     ''Internal CPC Exceeded by Root Domain '' @ [CHR 0x27] @ root_val @ [CHR 0x27] @ '' ''
       @ ratio t cpc_limit"

definition internal_domain_msg :: "nat \<Rightarrow> int \<Rightarrow> string" where
  "internal_domain_msg t cpc_limit = ''Internal CPC Exceeded by Exact Domain '' @ ratio t cpc_limit"

text \<open>\<open>x_count\<close>: the row's value looked up in \<open>internal_counts\<close>, 0 without a value.\<close>

definition internal_count :: "counts \<Rightarrow> (dim \<Rightarrow> string) \<Rightarrow> dim \<Rightarrow> nat" where
  "internal_count internal_counts v d = (if v d \<noteq> [] then internal_counts d (v d) else 0)"

definition internal_row_violations :: "int \<Rightarrow> counts \<Rightarrow> (dim \<Rightarrow> string) \<Rightarrow> string list" where
  "internal_row_violations cpc_limit internal_counts v =
     (let company_count = internal_count internal_counts v Company;
          tal_count = internal_count internal_counts v Tal;
          domain_count = internal_count internal_counts v Domain;
          root_count = internal_count internal_counts v Root_domain
      in (if v Company \<noteq> [] \<and> int company_count > cpc_limit
          then [internal_company_msg company_count cpc_limit] else [])
       @ (if v Tal \<noteq> [] \<and> int tal_count > cpc_limit
          then [internal_tal_msg tal_count cpc_limit] else [])
       @ (if v Root_domain \<noteq> [] \<and> int root_count > cpc_limit
          then [internal_root_msg (v Root_domain) root_count cpc_limit]
          else if v Domain \<noteq> [] \<and> int domain_count > cpc_limit
          then [internal_domain_msg domain_count cpc_limit]
          else []))"

record internal_cpc_stats =
  internal_cpc_violations :: nat
  internal_companies_checked :: "string set"
  internal_root_domains_checked :: "string set"

record internal_cpc_state =
  internal_counts :: counts
  internal_stats :: internal_cpc_stats
  internal_ws :: worksheet

definition internal_cpc_step ::
  "(string \<Rightarrow> string) \<Rightarrow> field_mapping \<Rightarrow> int \<Rightarrow> cpc_cols \<Rightarrow> nat \<Rightarrow>
   internal_cpc_state \<Rightarrow> row \<Rightarrow> internal_cpc_state" where
  "internal_cpc_step tld mapping cpc_limit cols idx st lrow =
     (let v = lead_val tld mapping lrow;
          ic = track_lead (internal_counts st) v;
          companies = (if v Company \<noteq> []
                       then insert (v Company) (internal_companies_checked (internal_stats st))
                       else internal_companies_checked (internal_stats st));
          roots = (if v Root_domain \<noteq> []
                   then insert (v Root_domain) (internal_root_domains_checked (internal_stats st))
                   else internal_root_domains_checked (internal_stats st));
          ws = internal_ws st;
          ws = write_total ws idx (cpc_company_col cols) (v Company) (internal_count ic v Company);
          ws = write_total ws idx (cpc_tal_col cols) (v Tal) (internal_count ic v Tal);
          ws = write_total ws idx (cpc_domain_col cols) (v Domain) (internal_count ic v Domain);
          ws = write_total ws idx (cpc_root_domain_col cols) (v Root_domain)
                 (internal_count ic v Root_domain);
          violations = internal_row_violations cpc_limit ic v
      in if violations \<noteq> []
         then \<lparr>internal_counts = ic,
               internal_stats =
                 \<lparr>internal_cpc_violations = internal_cpc_violations (internal_stats st) + 1,
                  internal_companies_checked = companies,
                  internal_root_domains_checked = roots\<rparr>,
               internal_ws = disqualify_lead ws idx (lead_status_col cols) (dq_reason_col cols)
                               (qa_comment_col cols) ''Internal CPC Exceeded''
                               (py_join ''; '' violations)\<rparr>
         else \<lparr>internal_counts = ic,
               internal_stats =
                 \<lparr>internal_cpc_violations = internal_cpc_violations (internal_stats st),
                  internal_companies_checked = companies,
                  internal_root_domains_checked = roots\<rparr>,
               internal_ws = ws\<rparr>)"

fun internal_cpc_loop ::
  "(string \<Rightarrow> string) \<Rightarrow> field_mapping \<Rightarrow> int \<Rightarrow> cpc_cols \<Rightarrow> nat \<Rightarrow>
   internal_cpc_state \<Rightarrow> row list \<Rightarrow> internal_cpc_state" where
  "internal_cpc_loop tld mapping cpc_limit cols idx st [] = st"
| "internal_cpc_loop tld mapping cpc_limit cols idx st (lrow # rest) =
     internal_cpc_loop tld mapping cpc_limit cols (Suc idx)
       (internal_cpc_step tld mapping cpc_limit cols idx st lrow) rest"

definition run_internal_cpc_check ::
  "(string \<Rightarrow> string) \<Rightarrow> int \<Rightarrow> row list \<Rightarrow> worksheet \<Rightarrow> field_mapping \<Rightarrow> string list \<Rightarrow>
   py_error + (internal_cpc_stats \<times> worksheet \<times> string list)" where
  "run_internal_cpc_check tld cpc_limit lead_data ws mapping lead_headers =
     (let (h, ws, c1) = ensure_col_in_ws lead_headers ws ''Internal CPC by Company'';
          (h, ws, c2) = ensure_col_in_ws h ws ''Internal CPC by TAL Company'';
          (h, ws, c3) = ensure_col_in_ws h ws ''Internal CPC by Domain'';
          (h, ws, c4) = ensure_col_in_ws h ws ''Internal CPC by Root Domain''
      in case index_of h ''Lead Status'' of
           None \<Rightarrow> Inl ValueError
         | Some s \<Rightarrow>
        (case index_of h ''DQ Reason'' of
           None \<Rightarrow> Inl ValueError
         | Some r \<Rightarrow>
        (case index_of h ''QA Comment'' of
           None \<Rightarrow> Inl ValueError
         | Some q \<Rightarrow>
            (let cols = \<lparr>cpc_company_col = c1, cpc_tal_col = c2, cpc_domain_col = c3,
                         cpc_root_domain_col = c4, lead_status_col = s + 1,
                         dq_reason_col = r + 1, qa_comment_col = q + 1\<rparr>;
                 st = internal_cpc_loop tld mapping cpc_limit cols 2
                        \<lparr>internal_counts = no_counts,
                         internal_stats =
                           \<lparr>internal_cpc_violations = 0, internal_companies_checked = {},
                            internal_root_domains_checked = {}\<rparr>,
                         internal_ws = ws\<rparr>
                        lead_data
             in Inr (internal_stats st, internal_ws st, h)))))"

text \<open>The violation lists of the lead rows in the internal check, in row order.\<close>

fun internal_trace ::
  "(string \<Rightarrow> string) \<Rightarrow> field_mapping \<Rightarrow> int \<Rightarrow> counts \<Rightarrow> row list \<Rightarrow> string list list" where
  "internal_trace tld mapping cpc_limit ic [] = []"
| "internal_trace tld mapping cpc_limit ic (lrow # rest) =
     (let v = lead_val tld mapping lrow; ic' = track_lead ic v
      in internal_row_violations cpc_limit ic' v # internal_trace tld mapping cpc_limit ic' rest)"


section \<open>Concrete inputs\<close>









section \<open>The domain-based CPC checker\<close>

text \<open>
  \<open>DomainBasedChecker\<close> of \<open>CPC_Duplicate_Helper/domain_based_checker.py\<close>: one unified
  identifier per record (root domain first, else company), with the four traditional
  counters kept beside it.
\<close>

text \<open>\<open>mapping.get(role, 'Not Available')\<close>.\<close>

definition get_or_na :: "field_mapping \<Rightarrow> string \<Rightarrow> string" where
  "get_or_na mapping role = (case mapping role of None \<Rightarrow> ''Not Available'' | Some c \<Rightarrow> c)"

record db_stats =
  db_cpc_violations :: nat
  db_companies_checked :: "string set"
  domains_checked :: "string set"
  root_domains_checked :: "string set"
  domain_company_mapping :: "string \<rightharpoonup> string"

text \<open>
  The values \<open>get_company_identifier\<close> returns:
  (identifier, display_name, domain, company, root_domain).
\<close>

definition company_identifier ::
  "(string \<Rightarrow> string) \<Rightarrow> row \<Rightarrow> string \<Rightarrow> string \<Rightarrow>
   string \<times> string \<times> string \<times> string \<times> string" where
  "company_identifier tld r company_col domain_col =
     (let domain_raw = (if domain_col \<noteq> ''Not Available''
                        then py_lower (py_strip (get_or r domain_col)) else []);
          domain = domain_raw;
          root_domain = (if domain_raw \<noteq> [] then extract_root_domain tld domain_raw else []);
          company_raw = (if company_col \<noteq> ''Not Available''
                         then py_strip (get_or r company_col) else []);
          company = (if company_raw \<noteq> [] then normalize_company company_raw else [])
      in if root_domain \<noteq> []
         then (''root_domain:'' @ root_domain,
               (if company \<noteq> [] then company @ '' ('' @ root_domain @ '')'' else root_domain),
               domain, company, root_domain)
         else if company \<noteq> []
         then (''company:'' @ company, company, domain, company, root_domain)
         else ([], [], domain, company, root_domain))"

text \<open>The statistics \<open>get_company_identifier\<close> updates on the way.\<close>

definition note_identifier :: "db_stats \<Rightarrow> string \<Rightarrow> string \<Rightarrow> db_stats" where
  "note_identifier st company root_domain =
     (if root_domain \<noteq> []
      then st\<lparr>domain_company_mapping :=
                (if root_domain \<notin> dom (domain_company_mapping st) \<and> company \<noteq> []
                 then (domain_company_mapping st)(root_domain \<mapsto> company)
                 else domain_company_mapping st),
              root_domains_checked := insert root_domain (root_domains_checked st)\<rparr>
      else st)"

text \<open>\<open>if identifier: ...\<close>: the sets of domains and companies seen.\<close>

definition note_seen :: "db_stats \<Rightarrow> string \<Rightarrow> string \<Rightarrow> string \<Rightarrow> db_stats" where
  "note_seen st identifier domain company =
     (if identifier \<noteq> []
      then st\<lparr>domains_checked :=
                (if domain \<noteq> [] then insert domain (domains_checked st) else domains_checked st),
              db_companies_checked :=
                (if company \<noteq> [] then insert company (db_companies_checked st)
                 else db_companies_checked st)\<rparr>
      else st)"

record db_delivery =
  db_stats_of :: db_stats
  delivery_counts :: "string \<Rightarrow> nat"
  delivery_counts_traditional :: counts

text \<open>One iteration of the loop over the delivery rows.\<close>

definition db_delivery_step ::
  "(string \<Rightarrow> string) \<Rightarrow> field_mapping \<Rightarrow> db_delivery \<Rightarrow> row \<Rightarrow> db_delivery" where
  "db_delivery_step tld mapping s drow =
     (let (identifier, display_name, domain, company, root_domain) =
            company_identifier tld drow (get_or_na mapping ''delivery_company'')
              (get_or_na mapping ''delivery_domain'');
          st = note_identifier (db_stats_of s) company root_domain;
          dcount = (if identifier \<noteq> []
                    then (delivery_counts s)(identifier := delivery_counts s identifier + 1)
                    else delivery_counts s);
          st = note_seen st identifier domain company;
          t = delivery_counts_traditional s;
          t = (if is_mapped mapping ''delivery_company'' \<and> company \<noteq> []
               then inc t Company company else t);
          t = (if is_mapped mapping ''delivery_tal''
               then (let tal_raw = py_strip (field mapping drow ''delivery_tal'')
                     in if tal_raw \<noteq> [] then inc t Tal (normalize_company tal_raw) else t)
               else t);
          t = (if is_mapped mapping ''delivery_domain''
               then (let domain_raw = py_lower (py_strip (field mapping drow ''delivery_domain''))
                     in if domain_raw \<noteq> []
                        then (let t = inc t Domain domain_raw;
                                  root = extract_root_domain tld domain_raw
                              in if root \<noteq> [] then inc t Root_domain root else t)
                        else t)
               else t)
      in \<lparr>db_stats_of = st, delivery_counts = dcount, delivery_counts_traditional = t\<rparr>)"

text \<open>The unified message of the primary check.\<close>

definition primary_msg :: "string \<Rightarrow> string \<Rightarrow> string \<Rightarrow> nat \<Rightarrow> int \<Rightarrow> string" where
  "primary_msg root_domain company display_name total_count cpc_limit =
     (if root_domain \<noteq> []
      then ''CPC Exceeded: Root Domain '' @ [CHR 0x27] @ root_domain @ [CHR 0x27] @ '' ''
             @ ratio total_count cpc_limit
             @ (if company \<noteq> [] then '' - '' @ company else [])
      else ''CPC Exceeded: '' @ display_name @ '' '' @ ratio total_count cpc_limit)"

text \<open>The traditional values of a lead row: \<open>company_val\<close>, \<open>tal_val\<close>, \<open>domain_val\<close>, \<open>root_val\<close>.\<close>

fun db_lead_val ::
  "(string \<Rightarrow> string) \<Rightarrow> field_mapping \<Rightarrow> row \<Rightarrow> string \<Rightarrow> string \<Rightarrow> dim \<Rightarrow> string" where
  "db_lead_val tld mapping lrow company root_domain Company = company"
| "db_lead_val tld mapping lrow company root_domain Tal =
     (if is_mapped mapping ''lead_tal''
      then (let tal_raw = py_strip (field mapping lrow ''lead_tal'')
            in if tal_raw \<noteq> [] then normalize_company tal_raw else [])
      else [])"
| "db_lead_val tld mapping lrow company root_domain Domain = lead_domain_val mapping lrow"
| "db_lead_val tld mapping lrow company root_domain Root_domain =
     (let domain_raw = lead_domain_val mapping lrow
      in if domain_raw \<noteq> [] \<and> root_domain = [] then extract_root_domain tld domain_raw
         else root_domain)"

text \<open>The primary check of a lead row: the list \<open>violations\<close> after it.\<close>

definition primary_violations ::
  "int \<Rightarrow> string \<Rightarrow> string \<Rightarrow> string \<Rightarrow> string \<Rightarrow> nat \<Rightarrow> string list" where
  "primary_violations cpc_limit identifier display_name company root_domain total_count =
     (if identifier \<noteq> [] \<and> int total_count > cpc_limit
      then [primary_msg root_domain company display_name total_count cpc_limit] else [])"

text \<open>
  The whole list \<open>violations\<close> of a lead row: the traditional checks run only when the
  primary check left the list empty.
\<close>

definition db_row_violations ::
  "int \<Rightarrow> string list \<Rightarrow> counts \<Rightarrow> counts \<Rightarrow> (dim \<Rightarrow> string) \<Rightarrow> string list" where
  "db_row_violations cpc_limit primary dct lct v =
     (if primary \<noteq> [] then primary else cpc_row_violations cpc_limit dct lct v)"

text \<open>
  \<open>list(set(violations))[:2]\<close>. The order in which Python iterates over a set is not
  fixed by the language; it is the parameter \<open>enum\<close>.
\<close>

definition first_two :: "(string set \<Rightarrow> string list) \<Rightarrow> string list \<Rightarrow> string list" where
  "first_two enum violations = take 2 (enum (set violations))"

record db_cols =
  cpc_primary_col :: nat
  cpc_breakdown_col :: nat
  traditional_cols :: cpc_cols

record db_state =
  db_lead_counts :: "string \<Rightarrow> nat"
  lead_counts_traditional :: counts
  db_stats_now :: db_stats
  db_ws :: worksheet

text \<open>What one lead row contributes: its identifier data, counters, totals and lists.\<close>

definition db_row_result ::
  "(string \<Rightarrow> string) \<Rightarrow> field_mapping \<Rightarrow> int \<Rightarrow> (string \<Rightarrow> nat) \<Rightarrow> counts \<Rightarrow>
   (string \<Rightarrow> nat) \<Rightarrow> counts \<Rightarrow> row \<Rightarrow>
   (string \<Rightarrow> nat) \<times> counts \<times> string list \<times> string list" where
  "db_row_result tld mapping cpc_limit dcount dct lcount lct lrow =
     (let (identifier, display_name, domain, company, root_domain) =
            company_identifier tld lrow (get_or_na mapping ''lead_company'')
              (get_or_na mapping ''lead_domain'');
          v = db_lead_val tld mapping lrow company root_domain;
          lcount = (if identifier \<noteq> [] then lcount(identifier := lcount identifier + 1)
                    else lcount);
          lct = track_lead lct v;
          total_count = (if identifier \<noteq> [] then dcount identifier + lcount identifier else 0);
          primary = primary_violations cpc_limit identifier display_name company root_domain
                      total_count
      in (lcount, lct, primary, db_row_violations cpc_limit primary dct lct v))"

text \<open>The body of the loop over the lead rows.\<close>

definition db_lead_step ::
  "(string set \<Rightarrow> string list) \<Rightarrow> (string \<Rightarrow> string) \<Rightarrow> field_mapping \<Rightarrow> int \<Rightarrow>
   (string \<Rightarrow> nat) \<Rightarrow> counts \<Rightarrow> db_cols \<Rightarrow> nat \<Rightarrow> db_state \<Rightarrow> row \<Rightarrow> db_state" where
  "db_lead_step enum tld mapping cpc_limit dcount dct cols idx s lrow =
     (let (identifier, display_name, domain, company, root_domain) =
            company_identifier tld lrow (get_or_na mapping ''lead_company'')
              (get_or_na mapping ''lead_domain'');
          st = note_identifier (db_stats_now s) company root_domain;
          v = db_lead_val tld mapping lrow company root_domain;
          (lcount, lct, primary, violations) =
            db_row_result tld mapping cpc_limit dcount dct (db_lead_counts s)
              (lead_counts_traditional s) lrow;
          st = note_seen st identifier domain company;
          total_count = (if identifier \<noteq> [] then dcount identifier + lcount identifier else 0);
          ws = db_ws s;
          ws = ws((idx, cpc_primary_col cols) :=
                    (if total_count > 0 then IntV (int total_count) else StrV []));
          ws = (if identifier \<noteq> []
                then ws((idx, cpc_breakdown_col cols) :=
                          StrV (display_name @ '': '' @ str_nat total_count
                                @ (if root_domain \<noteq> []
                                   then '' (Root domain: '' @ root_domain @ '')''
                                   else if company \<noteq> [] then '' (Company name-based)''
                                   else [])))
                else ws);
          tc = traditional_cols cols;
          ws = write_total ws idx (cpc_company_col tc) (v Company) (total dct lct v Company);
          ws = write_total ws idx (cpc_tal_col tc) (v Tal) (total dct lct v Tal);
          ws = write_total ws idx (cpc_domain_col tc) (v Domain) (total dct lct v Domain);
          ws = write_total ws idx (cpc_root_domain_col tc) (v Root_domain)
                 (total dct lct v Root_domain)
      in if violations \<noteq> []
         then \<lparr>db_lead_counts = lcount, lead_counts_traditional = lct,
               db_stats_now = st\<lparr>db_cpc_violations := db_cpc_violations st + 1\<rparr>,
               db_ws = disqualify_lead ws idx (lead_status_col tc) (dq_reason_col tc)
                         (qa_comment_col tc) ''Extra CPC''
                         (py_join ''; '' (first_two enum violations))\<rparr>
         else \<lparr>db_lead_counts = lcount, lead_counts_traditional = lct,
               db_stats_now = st, db_ws = ws\<rparr>)"

fun db_lead_loop ::
  "(string set \<Rightarrow> string list) \<Rightarrow> (string \<Rightarrow> string) \<Rightarrow> field_mapping \<Rightarrow> int \<Rightarrow>
   (string \<Rightarrow> nat) \<Rightarrow> counts \<Rightarrow> db_cols \<Rightarrow> nat \<Rightarrow> db_state \<Rightarrow> row list \<Rightarrow> db_state" where
  "db_lead_loop enum tld mapping cpc_limit dcount dct cols idx s [] = s"
| "db_lead_loop enum tld mapping cpc_limit dcount dct cols idx s (lrow # rest) =
     db_lead_loop enum tld mapping cpc_limit dcount dct cols (Suc idx)
       (db_lead_step enum tld mapping cpc_limit dcount dct cols idx s lrow) rest"

definition run_domain_based_cpc_check ::
  "(string set \<Rightarrow> string list) \<Rightarrow> (string \<Rightarrow> string) \<Rightarrow> int \<Rightarrow> row list \<Rightarrow> row list \<Rightarrow>
   worksheet \<Rightarrow> field_mapping \<Rightarrow> string list \<Rightarrow> py_error + (db_stats \<times> worksheet \<times> string list)" where
  "run_domain_based_cpc_check enum tld cpc_limit delivery_data lead_data ws mapping lead_headers =
     (let d = foldl (db_delivery_step tld mapping)
                \<lparr>db_stats_of = \<lparr>db_cpc_violations = 0, db_companies_checked = {},
                                 domains_checked = {}, root_domains_checked = {},
                                 domain_company_mapping = Map.empty\<rparr>,
                 delivery_counts = (\<lambda>_. 0), delivery_counts_traditional = no_counts\<rparr>
                delivery_data;
          (h, ws, p1) = ensure_col_in_ws lead_headers ws ''CPC by Root Domain Primary'';
          (h, ws, p2) = ensure_col_in_ws h ws ''CPC Breakdown'';
          (h, ws, c1) = ensure_col_in_ws h ws ''CPC by Company Name'';
          (h, ws, c2) = ensure_col_in_ws h ws ''CPC by TAL Company Name'';
          (h, ws, c3) = ensure_col_in_ws h ws ''CPC by Domain'';
          (h, ws, c4) = ensure_col_in_ws h ws ''CPC by Root Domain''
      in case index_of h ''Lead Status'' of
           None \<Rightarrow> Inl ValueError
         | Some s \<Rightarrow>
        (case index_of h ''DQ Reason'' of
           None \<Rightarrow> Inl ValueError
         | Some r \<Rightarrow>
        (case index_of h ''QA Comment'' of
           None \<Rightarrow> Inl ValueError
         | Some q \<Rightarrow>
            (let cols = \<lparr>cpc_primary_col = p1, cpc_breakdown_col = p2,
                         traditional_cols =
                           \<lparr>cpc_company_col = c1, cpc_tal_col = c2, cpc_domain_col = c3,
                            cpc_root_domain_col = c4, lead_status_col = s + 1,
                            dq_reason_col = r + 1, qa_comment_col = q + 1\<rparr>\<rparr>;
                 st = db_lead_loop enum tld mapping cpc_limit (delivery_counts d)
                        (delivery_counts_traditional d) cols 2
                        \<lparr>db_lead_counts = (\<lambda>_. 0), lead_counts_traditional = no_counts,
                         db_stats_now = db_stats_of d, db_ws = ws\<rparr>
                        lead_data
             in Inr (db_stats_now st, db_ws st, h)))))"




section \<open>The email-permutation generator\<close>

text \<open>\<open>utils/email_utils.py\<close>. \<open>IGNORE_SUFFIXES\<close> is a set; only membership is used.\<close>

definition IGNORE_SUFFIXES :: "string list" where
  "IGNORE_SUFFIXES =
     [''dr'', ''dr.'', ''mr'', ''mr.'', ''ms'', ''ms.'', ''mrs'', ''mrs.'', ''prof'',
      ''prof.'', ''sir'', ''hon'', ''hon.'', ''rev'', ''rev.'', ''fr'', ''fr.'',
      ''capt'', ''capt.'', ''captain'', ''col'', ''col.'', ''colonel'', ''maj'',
      ''maj.'', ''lt'', ''lt.'', ''lieutenant'', ''sgt'', ''sgt.'', ''sergeant'',
      ''pvt'', ''pvt.'', ''private'', ''general'', ''admiral'', ''commander'',
      ''corporal'', ''cpl'', ''cpl.'', ''minister'', ''archbishop'', ''rabbi'',
      ''brother'', ''sister'', ''father'', ''mother'', ''chancellor'', ''principal'',
      ''director'', ''president'', ''ceo'', ''cfo'', ''cto'', ''cmo'', ''vp'', ''svp'',
      ''evp'', ''chair'', ''chairman'', ''chairwoman'', ''ret'', ''ret.'', ''retired'',
      ''emeritus'', ''jr'', ''jr.'', ''sr'', ''sr.'', ''junior'', ''senior'', ''ii'',
      ''iii'', ''iv'', ''v'', ''vi'', ''2nd'', ''3rd'', ''4th'', ''5th'', ''mba'',
      ''phd'', ''msc'', ''ms'', ''bsc'', ''ba'', ''ma'', ''mtech'', ''btech'', ''jd'',
      ''ed.d'', ''cfa'', ''cpa'', ''acca'', ''ca'', ''cma'', ''cfp'', ''frms'', ''pmp'',
      ''sixsigma'', ''six'', ''sigma'', ''lssbb'', ''lssgb'', ''lean'', ''blackbelt'',
      ''rn'', ''md'', ''mbbs'', ''dds'', ''dmd'', ''do'', ''bpharm'', ''mph'', ''shrmp'',
      ''phr'', ''gphr'', ''sphr'', ''ccmp'', ''cpc'', ''cpcc'', ''aws'', ''gcp'',
      ''ccna'', ''mcsa'', ''ocp'', ''mcp'', ''comptia'', ''azure'', ''esq'', ''llb'',
      ''llm'', ''itil'', ''itl'', ''iti'', ''cissp'', ''ciso'', ''cism'', ''cris'',
      ''bms'', ''flmi'', ''flmi.'', ''hia'', ''hia.'', ''mhp'', ''mhp.'', ''acs'',
      ''acs.'', ''cpcu'', ''cpcu.'', ''csm'', ''csm.'', ''gaicd'', ''gaicd.'',
      ''cmaicd'', ''cmaicd.'', ''fcipd'', ''fcipd.'', ''cipd'', ''cipd.'', ''fcpd'',
      ''fcpd.'', ''fcp'', ''fcp.'', ''fca'', ''fca.'', ''fcma'', ''fcma.'', ''fcpa'',
      ''fcpa.'', ''fbcs'', ''fbcs.'']"

text \<open>
  \<open>strip_unicode\<close>: the replacement table, then NFKD normalization and the removal of
  every non-ASCII character, given per character of the Latin-1 range.
\<close>

definition fold_char :: "char \<Rightarrow> string" where
  "fold_char c =
     (let n = (of_char c :: nat)
      in if n < 128 then [c]
         else if n = 252 \<or> n = 220 then ''ue''
         else if n = 246 \<or> n = 214 then ''oe''
         else if n = 228 \<or> n = 196 then ''ae''
         else if n = 223 then ''ss''
         else if n = 160 \<or> n = 168 \<or> n = 175 \<or> n = 180 \<or> n = 184 then '' ''
         else if n = 170 then ''a''
         else if n = 178 then ''2''
         else if n = 179 then ''3''
         else if n = 185 then ''1''
         else if n = 186 then ''o''
         else if n = 188 then ''14''
         else if n = 189 then ''12''
         else if n = 190 then ''34''
         else if 192 \<le> n \<and> n \<le> 197 then ''A''
         else if n = 199 then ''C''
         else if 200 \<le> n \<and> n \<le> 203 then ''E''
         else if 204 \<le> n \<and> n \<le> 207 then ''I''
         else if n = 209 then ''N''
         else if 210 \<le> n \<and> n \<le> 214 then ''O''
         else if 217 \<le> n \<and> n \<le> 220 then ''U''
         else if n = 221 then ''Y''
         else if 224 \<le> n \<and> n \<le> 229 then ''a''
         else if n = 231 then ''c''
         else if 232 \<le> n \<and> n \<le> 235 then ''e''
         else if 236 \<le> n \<and> n \<le> 239 then ''i''
         else if n = 241 then ''n''
         else if 242 \<le> n \<and> n \<le> 246 then ''o''
         else if 249 \<le> n \<and> n \<le> 252 then ''u''
         else if n = 253 \<or> n = 255 then ''y''
         else [])"

definition strip_unicode :: "string \<Rightarrow> string" where
  "strip_unicode text = concat (map fold_char text)"

text \<open>\<open>re.match(r"([^\(]+)", name)\<close>: the characters before the first parenthesis.\<close>

definition extract_primary_first_name :: "string \<Rightarrow> string" where
  "extract_primary_first_name name =
     (let m = takeWhile (\<lambda>c. c \<noteq> CHR ''('') name
      in if m \<noteq> [] then py_strip m else py_strip name)"

text \<open>\<open>re.sub(r"[^a-z0-9._-]", "", s)\<close>.\<close>

definition allowed_char :: "char \<Rightarrow> bool" where
  "allowed_char c =
     (let n = (of_char c :: nat)
      in (97 \<le> n \<and> n \<le> 122) \<or> (48 \<le> n \<and> n \<le> 57)
         \<or> c = CHR ''.'' \<or> c = CHR ''_'' \<or> c = CHR ''-'')"

definition keep_allowed :: "string \<Rightarrow> string" where
  "keep_allowed s = filter allowed_char s"

text \<open>
  The non-empty pieces of \<open>re.split(sep+, s)\<close> for a class \<open>sep\<close> of separator characters.
\<close>

fun pieces :: "(char \<Rightarrow> bool) \<Rightarrow> string \<Rightarrow> string \<Rightarrow> string list" where
  "pieces sep w [] = (if w = [] then [] else [w])"
| "pieces sep w (c # cs) =
     (if sep c then (if w = [] then pieces sep [] cs else w # pieces sep [] cs)
      else pieces sep (w @ [c]) cs)"

definition name_separator :: "char \<Rightarrow> bool" where
  "name_separator c =
     (py_isspace c \<or> c = CHR ''-'' \<or> c = CHR ''.'' \<or> c = CHR 0x27 \<or> c = CHR ''_'')"

definition tokenize_name :: "string \<Rightarrow> string list" where
  "tokenize_name name =
     (if name = [] then []
      else filter (\<lambda>cleaned. cleaned \<noteq> [])
             (map (\<lambda>token. strip_unicode (keep_allowed (py_lower token)))
                (pieces name_separator [] (py_strip name))))"

text \<open>\<open>s.rstrip('.')\<close>.\<close>

definition rstrip_dots :: "string \<Rightarrow> string" where
  "rstrip_dots s = rev (dropWhile (\<lambda>c. c = CHR ''.'') (rev s))"

definition restructure_compound_names :: "string \<Rightarrow> string \<Rightarrow> string \<times> string" where
  "restructure_compound_names first_name last_name =
     (if first_name = [] \<or> last_name = [] then (first_name, last_name)
      else
        let first_tokens = py_split (py_strip first_name);
            last_tokens = py_split (py_strip last_name)
        in if length first_tokens > 1
           then (let valid_first_tokens =
                       filter (\<lambda>token. rstrip_dots (py_lower token) \<notin> set IGNORE_SUFFIXES)
                         first_tokens
                 in if valid_first_tokens \<noteq> []
                    then (hd valid_first_tokens,
                          py_join '' '' (tl valid_first_tokens @ last_tokens))
                    else (py_strip first_name, py_strip last_name))
           else (py_strip first_name, py_strip last_name))"

text \<open>An address \<open>local@domain\<close>, and the four ways of joining two name parts.\<close>

definition addr :: "string \<Rightarrow> string \<Rightarrow> string" where
  "addr domain local_part = local_part @ ''@'' @ domain"

definition joined :: "string \<Rightarrow> string \<Rightarrow> string list" where
  "joined a b = [a @ b, a @ ''.'' @ b, a @ ''_'' @ b, a @ ''-'' @ b]"

text \<open>\<open>x if c else ""\<close>.\<close>

definition when_present :: "string \<Rightarrow> string \<Rightarrow> string" where
  "when_present c x = (if c \<noteq> [] then x else [])"

text \<open>The pairs \<open>(xs[i], xs[j])\<close> with \<open>i < j\<close>.\<close>

fun pairs_after :: "'a list \<Rightarrow> ('a \<times> 'a) list" where
  "pairs_after [] = []"
| "pairs_after (x # xs) = map (Pair x) xs @ pairs_after xs"

text \<open>
  The elements put into \<open>permutations\<close> before token mode, in the order of the source,
  from the first-name parts, the last-name parts left after the suffix filter, and the
  domain.
\<close>

definition core_patterns :: "string list \<Rightarrow> string list \<Rightarrow> string \<Rightarrow> string list" where
  "core_patterns first_parts last_parts domain =
     (let l_full = concat last_parts;
          f_full = concat first_parts;
          f_initial = take 1 (hd first_parts);
          l_initial = take 1 (hd last_parts);
          last_word = last last_parts;
          at = addr domain
      in concat (map (\<lambda>f. concat (map (\<lambda>l.
           map at [f @ l, f @ ''.'' @ l, f @ ''_'' @ l, f @ ''-'' @ l,
                   l @ f, l @ ''.'' @ f, l @ ''_'' @ f, l @ ''-'' @ f]) last_parts)) first_parts)
       @ map at [f_full @ l_full, f_full @ ''.'' @ l_full, f_full @ ''_'' @ l_full,
                 f_full @ ''-'' @ l_full, l_full @ f_full, l_full @ ''.'' @ f_full,
                 l_full @ ''_'' @ f_full, l_full @ ''-'' @ f_full, f_full, l_full]
       @ [when_present l_initial (at (f_full @ l_initial)),
          when_present f_initial (at (l_full @ f_initial)),
          when_present l_initial (at (f_full @ ''.'' @ l_initial)),
          when_present f_initial (at (l_full @ ''.'' @ f_initial)),
          when_present f_initial (at (f_initial @ ''.'' @ l_full)),
          when_present l_initial (at (l_initial @ ''.'' @ f_full)),
          when_present f_initial (at (f_initial @ ''_'' @ l_full)),
          when_present l_initial (at (l_initial @ ''_'' @ f_full)),
          when_present f_initial (at (f_initial @ ''-'' @ l_full)),
          when_present l_initial (at (l_initial @ ''-'' @ f_full)),
          when_present f_initial (at (f_initial @ l_full)),
          when_present f_initial (at (l_full @ f_initial))]
       @ (if f_full \<noteq> [] \<and> last_parts \<noteq> []
          then concat (map (\<lambda>lp. if lp \<noteq> []
                 then (let lp_initial = take 1 lp
                       in map at [f_full @ lp_initial, f_full @ ''_'' @ lp_initial,
                                  f_full @ ''.'' @ lp_initial, f_full @ ''-'' @ lp_initial])
                 else []) last_parts)
          else [])
       @ (if l_full \<noteq> [] \<and> f_initial \<noteq> []
          then map at [l_full @ ''_'' @ f_initial, l_full @ ''.'' @ f_initial,
                       l_full @ ''-'' @ f_initial, l_full @ f_initial]
          else [])
       @ (if f_initial \<noteq> [] \<and> l_full \<noteq> [] then [at (f_initial @ l_full)] else [])
       @ (if l_initial \<noteq> [] \<and> f_full \<noteq> []
          then map at [l_initial @ f_full, l_initial @ ''_'' @ f_full,
                       l_initial @ ''.'' @ f_full, l_initial @ ''-'' @ f_full]
          else [])
       @ (if last_word \<noteq> []
          then (if f_full \<noteq> [] then map at [f_full @ ''.'' @ last_word, f_full @ last_word]
                else [])
             @ (if f_initial \<noteq> []
                then map at [f_initial @ ''.'' @ last_word, f_initial @ last_word] else [])
          else [])
       @ (if f_full \<noteq> [] \<and> l_initial \<noteq> [] then [at (f_full @ ''_'' @ l_initial)] else [])
       @ (if length last_parts > 1
          then (let concatenated_last = concat last_parts
                in map at [f_full @ ''.'' @ concatenated_last, f_full @ concatenated_last,
                           f_full @ ''_'' @ concatenated_last, f_full @ ''-'' @ concatenated_last,
                           concatenated_last @ ''.'' @ f_full, concatenated_last @ f_full,
                           concatenated_last @ ''_'' @ f_full, concatenated_last @ ''-'' @ f_full,
                           concatenated_last]
                 @ [when_present f_initial (at (f_initial @ ''.'' @ concatenated_last)),
                    when_present f_initial (at (f_initial @ concatenated_last)),
                    when_present f_initial (at (concatenated_last @ f_initial)),
                    when_present f_initial (at (concatenated_last @ ''.'' @ f_initial)),
                    when_present f_initial (at (concatenated_last @ ''_'' @ f_initial)),
                    when_present f_initial (at (concatenated_last @ ''-'' @ f_initial))])
          else [])
       @ (if length first_parts > 1
          then concat (map (\<lambda>(a, b).
                 map at [a @ ''.'' @ b, a @ ''_'' @ b, a @ ''-'' @ b, a @ b])
                 (pairs_after first_parts))
             @ concat (map (\<lambda>fp. concat (map (\<lambda>lp.
                 map at [fp @ ''.'' @ lp, fp @ ''_'' @ lp, fp @ ''-'' @ lp, fp @ lp])
                 last_parts)) first_parts)
          else []))"

text \<open>The set \<open>token_patterns\<close> built for one token of the token mode.\<close>

definition token_patterns ::
  "string list \<Rightarrow> string \<Rightarrow> string \<Rightarrow> string list \<Rightarrow> string \<Rightarrow> string list" where
  "token_patterns first_parts domain token valid_tokens f_initial =
     (let f_full = concat first_parts; at = addr domain
      in concat (map (\<lambda>f.
           map at [f @ token, f @ ''.'' @ token, f @ ''_'' @ token, f @ ''-'' @ token,
                   token @ f, token @ ''.'' @ f, token @ ''_'' @ f, token @ ''-'' @ f])
           first_parts)
       @ map at [f_full @ token, f_full @ ''.'' @ token, f_full @ ''_'' @ token,
                 f_full @ ''-'' @ token, token @ f_full, token @ ''.'' @ f_full,
                 token @ ''_'' @ f_full, token @ ''-'' @ f_full, token]
       @ (if f_initial \<noteq> []
          then map at [f_initial @ ''.'' @ token, f_initial @ token, token @ f_initial,
                       token @ ''.'' @ f_initial, token @ ''_'' @ f_initial,
                       token @ ''-'' @ f_initial]
          else [])
       @ concat (map (\<lambda>other_token. if other_token \<noteq> token
               then map at [token @ ''.'' @ other_token, token @ ''_'' @ other_token,
                            token @ ''-'' @ other_token, token @ other_token]
               else []) valid_tokens))"

text \<open>
  The loop over the sorted tokens: \<open>token_permutations\<close> after the tokens that remain,
  from the number of candidates added so far. \<open>enum\<close> is the order in which a set is
  listed by \<open>list(...)\<close>.
\<close>

fun token_loop ::
  "(string set \<Rightarrow> string list) \<Rightarrow> int \<Rightarrow> string list \<Rightarrow> string \<Rightarrow> string list \<Rightarrow> string \<Rightarrow>
   string set \<Rightarrow> string list \<Rightarrow> nat \<Rightarrow> string set \<Rightarrow> string set" where
  "token_loop enum row_budget first_parts domain valid_tokens f_initial permutations
     [] candidates_added token_permutations = token_permutations"
| "token_loop enum row_budget first_parts domain valid_tokens f_initial permutations
     (token # rest) candidates_added token_permutations =
     (if int candidates_added \<ge> row_budget then token_permutations
      else
        let new_patterns =
              set (token_patterns first_parts domain token valid_tokens f_initial)
                - permutations - token_permutations;
            budget_remaining = row_budget - int candidates_added;
            patterns_to_add = take (nat budget_remaining) (enum new_patterns)
        in token_loop enum row_budget first_parts domain valid_tokens f_initial permutations
             rest (candidates_added + length patterns_to_add)
             (token_permutations \<union> set patterns_to_add))"

text \<open>The tokens of the token mode, filtered and sorted by decreasing length (stable).\<close>

definition sorted_valid_tokens ::
  "(string set \<Rightarrow> string list) \<Rightarrow> int \<Rightarrow> string \<Rightarrow> string \<Rightarrow> string \<Rightarrow> string \<Rightarrow> string list" where
  "sorted_valid_tokens enum token_min_len first_name last_name original_first_name
     original_last_name =
     (let last_tokens = tokenize_name last_name;
          first_tokens = tokenize_name first_name;
          first_tokens = (if original_first_name \<noteq> [] \<and> original_first_name \<noteq> first_name
                          then first_tokens @ tokenize_name original_first_name
                          else first_tokens);
          last_tokens = (if original_last_name \<noteq> [] \<and> original_last_name \<noteq> last_name
                         then last_tokens @ tokenize_name original_last_name
                         else last_tokens);
          all_tokens = enum (set (first_tokens @ last_tokens));
          valid_tokens = filter (\<lambda>token. int (length token) \<ge> token_min_len
                                   \<and> py_lower token \<notin> set IGNORE_SUFFIXES) all_tokens
      in sort_key (\<lambda>token. - int (length token)) valid_tokens)"

text \<open>The first-name parts and the last-name parts (before the suffix filter).\<close>

definition first_parts_of :: "string \<Rightarrow> string list" where
  "first_parts_of first_name =
     map keep_allowed
       (py_split (strip_unicode (extract_primary_first_name (py_lower (py_strip first_name)))))"

definition last_parts_of :: "string \<Rightarrow> string list" where
  "last_parts_of last_name =
     map (\<lambda>p. strip_unicode (keep_allowed p)) (py_split (py_lower (py_strip last_name)))"

text \<open>
  \<open>_generate_patterns_core\<close>. \<open>first_parts[0][0]\<close> raises \<open>IndexError\<close> when the first part
  is empty after cleaning.
\<close>

definition generate_patterns_core ::
  "(string set \<Rightarrow> string list) \<Rightarrow> string \<Rightarrow> string \<Rightarrow> string \<Rightarrow> int \<Rightarrow> int \<Rightarrow> bool \<Rightarrow>
   string \<Rightarrow> string \<Rightarrow> py_error + string set" where
  "generate_patterns_core enum first_name last_name domain token_min_len row_budget
     enable_token_mode original_first_name original_last_name =
     (let first_parts = first_parts_of first_name;
          domain = py_lower (py_strip domain);
          last_parts = last_parts_of last_name
      in if first_parts = [] \<or> last_parts = [] \<or> domain = [] then Inr {}
         else
           let last_parts = filter (\<lambda>part. py_lower part \<notin> set IGNORE_SUFFIXES) last_parts
           in if last_parts = [] then Inr {}
              else if hd first_parts = [] then Inl IndexError
              else
                let f_initial = take 1 (hd first_parts);
                    permutations = set (core_patterns first_parts last_parts domain)
                in if \<not> enable_token_mode then Inr (permutations - {[]})
                   else
                     let valid_tokens = sorted_valid_tokens enum token_min_len first_name
                                          last_name original_first_name original_last_name;
                         token_permutations =
                           token_loop enum row_budget first_parts domain valid_tokens f_initial
                             permutations valid_tokens 0 {}
                     in Inr ((permutations \<union> token_permutations) - {[]}))"

definition generate_email_permutations ::
  "(string set \<Rightarrow> string list) \<Rightarrow> string \<Rightarrow> string \<Rightarrow> string \<Rightarrow> int \<Rightarrow> int \<Rightarrow> bool \<Rightarrow>
   py_error + string set" where
  "generate_email_permutations enum first_name last_name domain token_min_len row_budget
     enable_token_mode =
     (let (restructured_first, restructured_last) =
            restructure_compound_names first_name last_name
      in case generate_patterns_core enum restructured_first restructured_last domain
                token_min_len row_budget enable_token_mode first_name last_name of
           Inl e \<Rightarrow> Inl e
         | Inr restructured_patterns \<Rightarrow>
             if restructured_first \<noteq> first_name \<or> restructured_last \<noteq> last_name
             then (case generate_patterns_core enum first_name last_name domain
                          token_min_len row_budget enable_token_mode first_name last_name of
                     Inl e \<Rightarrow> Inl e
                   | Inr original_patterns \<Rightarrow> Inr (restructured_patterns \<union> original_patterns))
             else Inr restructured_patterns)"

text \<open>Two orders in which a set of strings may be listed: ascending and descending.\<close>

definition ascending :: "string set \<Rightarrow> string list" where
  "ascending S = sorted_list_of_set S"

definition descending :: "string set \<Rightarrow> string list" where
  "descending S = rev (sorted_list_of_set S)"

section \<open>Verified properties\<close>

subsection \<open>Company-name normalization\<close>

lemma of_char_lower_upper:
  "py_isupper c \<Longrightarrow> (of_char (char_of ((of_char c :: nat) + 32)) :: nat) = of_char c + 32"
  by (auto simp: py_isupper_def Let_def)

lemma py_lower_char_not_upper: "\<not> py_isupper (py_lower_char c)"
proof (cases "py_isupper c")
  case True
  have "(of_char (py_lower_char c) :: nat) = of_char c + 32"
    using True of_char_lower_upper [OF True] by (simp add: py_lower_char_def)
  then show ?thesis using True by (auto simp: py_isupper_def Let_def)
next
  case False
  then show ?thesis by (simp add: py_lower_char_def)
qed

lemma py_lower_char_idem: "py_lower_char (py_lower_char c) = py_lower_char c"
  using py_lower_char_not_upper [of c] by (simp add: py_lower_char_def)

lemma alnum_not_space: "py_isalnum c \<Longrightarrow> \<not> py_isspace c"
  by (auto simp: py_isalnum_def py_isspace_def Let_def)

lemma space_is_space: "py_isspace CHR '' ''"
  by (simp add: py_isspace_def)

lemma space_lower: "py_lower_char CHR '' '' = CHR '' ''"
  by (simp add: py_lower_char_def py_isupper_def)

lemma split_aux_nonspace:
  "\<forall>c\<in>set v. \<not> py_isspace c \<Longrightarrow> split_aux w (v @ cs) = split_aux (w @ v) cs"
  by (induction v arbitrary: w) auto

lemma split_aux_words:
  "\<forall>c\<in>set w. \<not> py_isspace c \<Longrightarrow> x \<in> set (split_aux w s) \<Longrightarrow> word_ok x"
proof (induction s arbitrary: w)
  case Nil
  then show ?case by (auto simp: word_ok_def split: if_splits)
next
  case (Cons a s)
  show ?case
  proof (cases "py_isspace a")
    case True
    have e: "\<forall>c\<in>set ([] :: string). \<not> py_isspace c" by simp
    show ?thesis
    proof (cases "w = []")
      case True
      with \<open>py_isspace a\<close> Cons.prems(2) have "x \<in> set (split_aux [] s)" by simp
      then show ?thesis using Cons.IH [OF e] by simp
    next
      case False
      with \<open>py_isspace a\<close> Cons.prems(2) have "x = w \<or> x \<in> set (split_aux [] s)" by simp
      then show ?thesis using Cons.IH [OF e] Cons.prems(1) False by (auto simp: word_ok_def)
    qed
  next
    case False
    then have "\<forall>c\<in>set (w @ [a]). \<not> py_isspace c" using Cons.prems(1) by simp
    moreover have "x \<in> set (split_aux (w @ [a]) s)" using False Cons.prems(2) by simp
    ultimately show ?thesis by (rule Cons.IH)
  qed
qed

lemma split_aux_chars:
  "x \<in> set (split_aux w s) \<Longrightarrow> c \<in> set x \<Longrightarrow> c \<in> set w \<union> set s"
  by (induction s arbitrary: w) (fastforce split: if_splits)+

lemma py_split_words: "x \<in> set (py_split s) \<Longrightarrow> word_ok x \<and> set x \<subseteq> set s"
  using split_aux_words [of "[]" x s] split_aux_chars [of x "[]" s]
  by (auto simp: py_split_def)

lemma split_join:
  "\<forall>w\<in>set ws. word_ok w \<Longrightarrow> py_split (py_join '' '' ws) = ws"
proof (induction "'' ''" ws rule: py_join.induct)
  case 1
  then show ?case by (simp add: py_split_def)
next
  case (2 x)
  then have "split_aux [] (x @ []) = split_aux ([] @ x) []"
    by (intro split_aux_nonspace) (simp add: word_ok_def)
  with 2 show ?case by (simp add: py_split_def word_ok_def)
next
  case (3 x y ys)
  have "split_aux [] (x @ ('' '' @ py_join '' '' (y # ys))) = split_aux ([] @ x) ('' '' @ py_join '' '' (y # ys))"
    using 3(2) by (intro split_aux_nonspace) (simp add: word_ok_def)
  moreover have "x \<noteq> []" using 3(2) by (simp add: word_ok_def)
  moreover have "py_split (py_join '' '' (y # ys)) = y # ys" using 3 by simp
  ultimately show ?case by (simp add: py_split_def space_is_space)
qed

lemma join_chars: "set (py_join sep ws) \<subseteq> set sep \<union> \<Union> (set ` set ws)"
  by (induction sep ws rule: py_join.induct) auto

lemma join_hd: "ws \<noteq> [] \<Longrightarrow> hd ws \<noteq> [] \<Longrightarrow> hd (py_join sep ws) = hd (hd ws)"
  by (induction sep ws rule: py_join.induct) auto

lemma join_last_aux:
  "ws \<noteq> [] \<Longrightarrow> last ws \<noteq> [] \<Longrightarrow>
   py_join sep ws \<noteq> [] \<and> last (py_join sep ws) = last (last ws)"
  by (induction sep ws rule: py_join.induct) auto

lemma join_last: "ws \<noteq> [] \<Longrightarrow> last ws \<noteq> [] \<Longrightarrow> last (py_join sep ws) = last (last ws)"
  by (simp add: join_last_aux)

lemma join_nonempty: "ws \<noteq> [] \<Longrightarrow> hd ws \<noteq> [] \<Longrightarrow> py_join sep ws \<noteq> []"
  by (induction sep ws rule: py_join.induct) auto

lemma strip_id:
  "s = [] \<or> (\<not> py_isspace (hd s) \<and> \<not> py_isspace (last s)) \<Longrightarrow> py_strip s = s"
proof (cases s)
  case Nil
  then show ?thesis by (simp add: py_strip_def)
next
  case (Cons c cs)
  assume "s = [] \<or> (\<not> py_isspace (hd s) \<and> \<not> py_isspace (last s))"
  with Cons have a: "\<not> py_isspace c" and b: "\<not> py_isspace (last s)" by auto
  have "dropWhile py_isspace s = s" using a Cons by simp
  moreover have "s = butlast s @ [last s]" using Cons by simp
  then have r: "rev s = last s # rev (butlast s)"
    using arg_cong [of s "butlast s @ [last s]" rev] by simp
  have "dropWhile py_isspace (last s # rev (butlast s)) = last s # rev (butlast s)"
    using b by simp
  then have "dropWhile py_isspace (rev s) = rev s" by (simp only: r)
  ultimately show ?thesis by (simp add: py_strip_def)
qed

lemma strip_join:
  assumes "\<forall>w\<in>set ws. word_ok w"
  shows "py_strip (py_join '' '' ws) = py_join '' '' ws"
proof (cases ws)
  case Nil
  then show ?thesis by (simp add: py_strip_def)
next
  case (Cons w ws')
  then have ne: "ws \<noteq> []" by simp
  have h: "word_ok (hd ws)" using assms ne by simp
  have l: "word_ok (last ws)" using assms ne by simp
  have "hd (py_join '' '' ws) = hd (hd ws)" using ne h by (simp add: join_hd word_ok_def)
  moreover have "last (py_join '' '' ws) = last (last ws)" using ne l by (simp add: join_last word_ok_def)
  moreover have "\<not> py_isspace (hd (hd ws))" using h by (simp add: word_ok_def)
  moreover have "\<not> py_isspace (last (last ws))" using l by (simp add: word_ok_def)
  ultimately show ?thesis by (intro strip_id) simp
qed

lemma strip_chars: "set (py_strip s) \<subseteq> set s"
proof -
  have "set (dropWhile py_isspace (rev (dropWhile py_isspace s))) \<subseteq> set (rev (dropWhile py_isspace s))"
    by (rule set_dropWhileD [THEN subsetI])
  also have "\<dots> \<subseteq> set s" using set_dropWhileD [of _ py_isspace s] by auto
  finally show ?thesis by (simp add: py_strip_def)
qed

lemma remove_prefixes_chars: "set (remove_prefixes ps s) \<subseteq> set s"
proof (induction ps arbitrary: s)
  case Nil
  then show ?case by simp
next
  case (Cons p ps)
  have "set (drop (length p) s) \<subseteq> set s" by (rule set_drop_subset)
  then show ?case using Cons [of s] Cons [of "drop (length p) s"] by auto
qed

lemma remove_suffix_chars: "set (remove_suffix xs s) \<subseteq> set s"
proof (induction xs)
  case Nil
  then show ?case by simp
next
  case (Cons x xs)
  have "set (py_strip (take (length s - length x) s)) \<subseteq> set s"
    using strip_chars [of "take (length s - length x) s"] set_take_subset [of "length s - length x" s]
    by blast
  then show ?case using Cons by simp
qed

lemma remove_prefixes_none:
  "\<forall>p\<in>set ps. \<not> py_startswith s p \<Longrightarrow> remove_prefixes ps s = s"
  by (induction ps) auto

lemma remove_suffix_none:
  "\<forall>x\<in>set xs. \<not> py_endswith s x \<Longrightarrow> remove_suffix xs s = s"
  by (induction xs) auto

lemma normalize_company_form:
  "\<exists>ws. normalize_company x = py_join '' '' ws \<and> (\<forall>w\<in>set ws. clean_word w)"
proof (cases "x = []")
  case True
  then have "normalize_company x = py_join '' '' []" by (simp add: normalize_company_def)
  then show ?thesis by (intro exI [of _ "[]"]) simp
next
  case False
  define a where "a = py_lower (py_strip x)"
  define b where "b = remove_suffix suffixes (remove_prefixes prefixes a)"
  define z where "z = filter (\<lambda>c. py_isalnum c \<or> py_isspace c) b"
  have n: "normalize_company x = py_join '' '' (py_split z)"
    using False by (simp add: normalize_company_def Let_def a_def b_def z_def)
  have la: "\<forall>c\<in>set a. py_lower_char c = c"
    by (auto simp: a_def py_lower_def py_lower_char_idem)
  have "set b \<subseteq> set a"
    using remove_suffix_chars [of suffixes "remove_prefixes prefixes a"]
      remove_prefixes_chars [of prefixes a] by (auto simp: b_def)
  then have lz: "\<forall>c\<in>set z. py_lower_char c = c \<and> (py_isalnum c \<or> py_isspace c)"
    using la by (auto simp: z_def)
  have "\<forall>w\<in>set (py_split z). clean_word w"
  proof
    fix w assume w: "w \<in> set (py_split z)"
    then have ok: "word_ok w" and sub: "set w \<subseteq> set z" using py_split_words by auto
    show "clean_word w"
      unfolding clean_word_def using ok sub lz by (auto simp: word_ok_def)
  qed
  with n show ?thesis by blast
qed

lemma clean_join_chars:
  assumes "\<forall>w\<in>set ws. clean_word w" and "c \<in> set (py_join '' '' ws)"
  shows "py_lower_char c = c \<and> (py_isalnum c \<or> py_isspace c)"
proof -
  from assms(2) join_chars [of "'' ''" ws]
  have "c = CHR '' '' \<or> (\<exists>w\<in>set ws. c \<in> set w)" by auto
  then show ?thesis
    using assms(1) by (auto simp: clean_word_def space_lower space_is_space)
qed

text \<open>
  Claim C4, as amended. Normalizing an already normalized name changes nothing provided
  the normalized name does not itself begin with one of the articles or end with one of
  the legal suffixes: \<open>normalize_company\<close> removes each article once and a single suffix
  (the suffix loop stops at its first match), so a name carrying two of them needs two
  passes.
\<close>

theorem normalize_company_idem_when_stable:
  assumes "\<forall>p\<in>set prefixes. \<not> py_startswith (normalize_company x) p"
    and "\<forall>s\<in>set suffixes. \<not> py_endswith (normalize_company x) s"
  shows "normalize_company (normalize_company x) = normalize_company x"
proof -
  obtain ws where y: "normalize_company x = py_join '' '' ws"
    and cw: "\<forall>w\<in>set ws. clean_word w"
    using normalize_company_form by blast
  define y where "y = py_join '' '' ws"
  have wo: "\<forall>w\<in>set ws. word_ok w" using cw by (simp add: clean_word_def)
  have ch: "\<forall>c\<in>set y. py_lower_char c = c \<and> (py_isalnum c \<or> py_isspace c)"
    using clean_join_chars [OF cw] by (simp add: y_def)
  have s1: "py_strip y = y" using strip_join [OF wo] by (simp add: y_def)
  have s2: "py_lower y = y" using ch by (simp add: py_lower_def map_idI)
  have s3: "remove_prefixes prefixes y = y"
    using assms(1) by (intro remove_prefixes_none) (simp add: \<open>normalize_company x = py_join '' '' ws\<close> y_def)
  have s4: "remove_suffix suffixes y = y"
    using assms(2) by (intro remove_suffix_none) (simp add: \<open>normalize_company x = py_join '' '' ws\<close> y_def)
  have s5: "filter (\<lambda>c. py_isalnum c \<or> py_isspace c) y = y"
    using ch by (simp add: filter_id_conv)
  have s6: "py_join '' '' (py_split y) = y"
    using split_join [OF wo] by (simp add: y_def)
  have "normalize_company y = y"
    by (simp add: normalize_company_def Let_def s1 s2 s3 s4 s5 s6)
  then show ?thesis by (simp add: \<open>normalize_company x = py_join '' '' ws\<close> y_def)
qed

theorem normalize_company_idem_witness:
  "normalize_company ''Acme Inc'' = ''acme''
   \<and> normalize_company (normalize_company ''Acme Inc'') = ''acme''"
proof -
  have v: "normalize_company ''Acme Inc'' = ''acme''" by code_simp
  have p: "\<forall>p\<in>set prefixes. \<not> py_startswith (normalize_company ''Acme Inc'') p"
    unfolding v by code_simp
  have s: "\<forall>s\<in>set suffixes. \<not> py_endswith (normalize_company ''Acme Inc'') s"
    unfolding v by code_simp
  show ?thesis using v normalize_company_idem_when_stable [OF p s] by simp
qed

text \<open>
  Claim C4 as stated fails: of two trailing suffixes only the last is removed by one pass.
\<close>

theorem normalize_company_not_idempotent:
  "normalize_company (normalize_company ''Acme Inc Inc'') \<noteq> normalize_company ''Acme Inc Inc''"
  by code_simp

subsection \<open>The violation writer\<close>





subsection \<open>The CPC counters\<close>






lemma cpc_trace_length: "length (cpc_trace tld mapping L dc lc rows) = length rows"
  by (induction rows arbitrary: lc) (auto simp: Let_def)










lemma internal_trace_length: "length (internal_trace tld mapping L ic rows) = length rows"
  by (induction rows arbitrary: ic) (auto simp: Let_def)




lemma internal_loop_violations:
  "internal_cpc_violations (internal_stats (internal_cpc_loop tld mapping L cols idx st rows))
     = internal_cpc_violations (internal_stats st)
       + length (filter (\<lambda>v. v \<noteq> []) (internal_trace tld mapping L (internal_counts st) rows))"
  "internal_counts (internal_cpc_loop tld mapping L cols idx st rows)
     = foldl (\<lambda>lc r. track_lead lc (lead_val tld mapping r)) (internal_counts st) rows"
  by (induction rows arbitrary: st idx) (auto simp: internal_cpc_step_def Let_def)














subsection \<open>Unified and traditional violations\<close>












subsection \<open>The email-permutation generator\<close>

lemma core_result:
  assumes fp: "first_parts_of first_name = fp" and fpn: "fp \<noteq> []" and hdn: "hd fp \<noteq> []"
    and lp: "filter (\<lambda>part. py_lower part \<notin> set IGNORE_SUFFIXES) (last_parts_of last_name) = lp"
    and lpn: "lp \<noteq> []"
    and dm: "py_lower (py_strip domain) = d0" and dmn: "d0 \<noteq> []"
  shows "\<exists>T. generate_patterns_core enum first_name last_name domain token_min_len row_budget
              enable_token_mode original_first_name original_last_name
            = Inr ((set (core_patterns fp lp d0) \<union> T) - {[]})"
proof -
  have l0: "last_parts_of last_name \<noteq> []" using lp lpn by auto
  show ?thesis
  proof (cases enable_token_mode)
    case True
    then show ?thesis
      unfolding generate_patterns_core_def Let_def fp lp dm
      using fpn hdn lpn dmn l0 by auto
  next
    case False
    then have "generate_patterns_core enum first_name last_name domain token_min_len row_budget
              enable_token_mode original_first_name original_last_name
            = Inr ((set (core_patterns fp lp d0) \<union> {}) - {[]})"
      unfolding generate_patterns_core_def Let_def fp lp dm
      using fpn hdn lpn dmn l0 by simp
    then show ?thesis by blast
  qed
qed

lemma jane_restructure: "restructure_compound_names ''Jane'' ''Doe'' = (''Jane'', ''Doe'')"
  by code_simp

lemma jane_first_parts: "first_parts_of ''Jane'' = [''jane'']"
  by code_simp

lemma doe_last_parts:
  "filter (\<lambda>part. py_lower part \<notin> set IGNORE_SUFFIXES) (last_parts_of ''Doe'') = [''doe'']"
  by code_simp

lemma acme_domain: "py_lower (py_strip ''acme.com'') = ''acme.com''"
  by code_simp

lemma jane_doe_core:
  "''janedoe@acme.com'' \<in> set (core_patterns [''jane''] [''doe''] ''acme.com'')"
  "''jane.doe@acme.com'' \<in> set (core_patterns [''jane''] [''doe''] ''acme.com'')"
  "''doe.jane@acme.com'' \<in> set (core_patterns [''jane''] [''doe''] ''acme.com'')"
  "''jdoe@acme.com'' \<in> set (core_patterns [''jane''] [''doe''] ''acme.com'')"
  by code_simp+

text \<open>
  Claim C8. Whatever the order in which Python lists a set, and for every token
  configuration (in particular the defaults: minimum token length 1, budget 100, token
  mode on), \<open>generate_email_permutations("Jane", "Doe", "acme.com")\<close> returns a set, and
  that set contains \<open>janedoe@acme.com\<close>, \<open>jane.doe@acme.com\<close>, \<open>doe.jane@acme.com\<close> and
  \<open>jdoe@acme.com\<close>.
\<close>

theorem jane_doe_containment:
  "\<exists>S. generate_email_permutations enum ''Jane'' ''Doe'' ''acme.com'' token_min_len row_budget
          enable_token_mode = Inr S
       \<and> ''janedoe@acme.com'' \<in> S \<and> ''jane.doe@acme.com'' \<in> S
       \<and> ''doe.jane@acme.com'' \<in> S \<and> ''jdoe@acme.com'' \<in> S"
proof -
  have "\<exists>T. generate_patterns_core enum ''Jane'' ''Doe'' ''acme.com'' token_min_len
      row_budget enable_token_mode ''Jane'' ''Doe''
      = Inr ((set (core_patterns [''jane''] [''doe''] ''acme.com'') \<union> T) - {[]})"
    by (rule core_result [OF jane_first_parts _ _ doe_last_parts _ acme_domain]) simp_all
  then obtain T where c: "generate_patterns_core enum ''Jane'' ''Doe'' ''acme.com'' token_min_len
      row_budget enable_token_mode ''Jane'' ''Doe''
      = Inr ((set (core_patterns [''jane''] [''doe''] ''acme.com'') \<union> T) - {[]})"
    by blast
  have g: "generate_email_permutations enum ''Jane'' ''Doe'' ''acme.com'' token_min_len row_budget
          enable_token_mode = Inr ((set (core_patterns [''jane''] [''doe''] ''acme.com'') \<union> T) - {[]})"
    unfolding generate_email_permutations_def jane_restructure by (simp add: c)
  show ?thesis unfolding g using jane_doe_core by simp
qed

theorem jane_doe_containment_witness:
  "\<exists>S. generate_email_permutations ascending ''Jane'' ''Doe'' ''acme.com'' 1 100 True = Inr S
       \<and> ''janedoe@acme.com'' \<in> S \<and> ''jane.doe@acme.com'' \<in> S
       \<and> ''doe.jane@acme.com'' \<in> S \<and> ''jdoe@acme.com'' \<in> S"
  using jane_doe_containment [of ascending 1 100 True] .

end
